theory Spec2Isabelle
  imports Main
begin

section \<open>mp3srv: a directory of audio files behind a small HTTP server\<close>

text \<open>
  The program is one Python file, \<^verbatim>\<open>src/mp3.py\<close>: a start-up sequence, a request
  handler \<^verbatim>\<open>Handler\<close> derived from \<^verbatim>\<open>http.server.SimpleHTTPRequestHandler\<close>, the
  constant \<^verbatim>\<open>PLAYER_HTML\<close> and the serving loop of \<^verbatim>\<open>socketserver.TCPServer\<close>.
  The handler's own code is embedded line by line. Where it calls into the Python
  standard library (\<^verbatim>\<open>urllib.parse.unquote\<close>, \<^verbatim>\<open>json.dumps\<close>, \<^verbatim>\<open>posixpath\<close>,
  \<^verbatim>\<open>SimpleHTTPRequestHandler\<close>, \<^verbatim>\<open>socketserver.BaseServer\<close>) the library function is
  embedded from its CPython 3.11 source, under the library's own name.

  Conventions of the embedding:
  \<^item> A Python \<^verbatim>\<open>str\<close> is a \<^typ>\<open>string\<close> holding the UTF-8 bytes of the text, so
    \<^verbatim>\<open>str.encode()\<close> is the identity and a byte string has the same type. Percent-decoding
    is done on bytes, as \<^verbatim>\<open>unquote_to_bytes\<close> does; the re-decoding of the result as
    UTF-8 (which replaces ill-formed sequences) is not modelled, so names and request
    targets are understood to denote well-formed UTF-8.
  \<^item> An exception is a value of type \<open>exn\<close>; a function that can raise returns
    \<open>exn + 'a\<close>.
  \<^item> The file system is a tree of directories and regular files with read and search
    permission bits; symbolic links are not modelled.
\<close>

type_synonym bytes = string

subsection \<open>Python string methods\<close>

text \<open>\<^verbatim>\<open>s.split(sep)\<close> for a one-character separator: never an empty list.\<close>

fun split :: "char \<Rightarrow> string \<Rightarrow> string list" where
  "split sep [] = [[]]"
| "split sep (c # cs) =
     (if c = sep then [] # split sep cs
      else (case split sep cs of
              w # ws \<Rightarrow> (c # w) # ws
            | [] \<Rightarrow> [[c]]))"

text \<open>\<^verbatim>\<open>s.split(sep, 1)\<close>: at most one cut, at the first separator.\<close>

fun split1 :: "char \<Rightarrow> string \<Rightarrow> string list" where
  "split1 sep [] = [[]]"
| "split1 sep (c # cs) =
     (if c = sep then [[], cs]
      else (case split1 sep cs of
              w # ws \<Rightarrow> (c # w) # ws
            | [] \<Rightarrow> [[c]]))"

text \<open>\<^verbatim>\<open>sep.join(words)\<close>.\<close>

fun join_sep :: "string \<Rightarrow> string list \<Rightarrow> string" where
  "join_sep sep [] = []"
| "join_sep sep [w] = w"
| "join_sep sep (w # ws) = w @ sep @ join_sep sep ws"

definition startswith :: "string \<Rightarrow> string \<Rightarrow> bool" where
  "startswith s pre = (take (length pre) s = pre)"

definition endswith :: "string \<Rightarrow> string \<Rightarrow> bool" where
  "endswith s suf = (length suf \<le> length s \<and> drop (length s - length suf) s = suf)"

text \<open>
  \<^verbatim>\<open>str.lower()\<close> on the ASCII letters. Python also lowers cased letters beyond ASCII;
  none of them is mapped to or from a character of \<^verbatim>\<open>.mp3\<close>, the only text a lowered
  name is compared with.
\<close>

definition lower_char :: "char \<Rightarrow> char" where
  "lower_char c =
     (let n = (of_char c :: nat) in if 65 \<le> n \<and> n \<le> 90 then char_of (n + 32) else c)"

definition lower :: "string \<Rightarrow> string" where
  "lower s = map lower_char s"

text \<open>\<^verbatim>\<open>str.isspace\<close> on one ASCII character, and \<^verbatim>\<open>s.rstrip()\<close>.\<close>

definition isspace :: "char \<Rightarrow> bool" where
  "isspace c =
     (let n = (of_char c :: nat) in (9 \<le> n \<and> n \<le> 13) \<or> (28 \<le> n \<and> n \<le> 32))"

definition rstrip :: "string \<Rightarrow> string" where
  "rstrip s = rev (dropWhile isspace (rev s))"

text \<open>\<^verbatim>\<open>str(n)\<close> for a non-negative integer.\<close>

function str_of_nat :: "nat \<Rightarrow> string" where
  "str_of_nat n =
     (if n < 10 then [char_of (48 + n)]
      else str_of_nat (n div 10) @ [char_of (48 + n mod 10)])"
  by pat_completeness auto
termination
  by (relation "measure id") auto

declare str_of_nat.simps [simp del]

subsection \<open>Percent-decoding (\<^verbatim>\<open>urllib.parse\<close>)\<close>

definition hexdig :: string where
  "hexdig = ''0123456789ABCDEFabcdef''"

definition hexval :: "char \<Rightarrow> nat" where
  "hexval c =
     (let n = (of_char c :: nat) in
      if n \<le> 57 then n - 48 else if n \<le> 70 then n - 55 else n - 87)"

text \<open>The table \<^verbatim>\<open>_hextobyte\<close>: its keys are the pairs of hexadecimal digits.\<close>

definition hextobyte :: "string \<Rightarrow> char option" where
  "hextobyte k =
     (case k of
        [a, b] \<Rightarrow>
          if a \<in> set hexdig \<and> b \<in> set hexdig
          then Some (char_of (16 * hexval a + hexval b)) else None
      | _ \<Rightarrow> None)"

text \<open>The body of the loop \<^verbatim>\<open>for item in bits[1:]\<close> of \<^verbatim>\<open>unquote_to_bytes\<close>.\<close>

definition unquote_item :: "string \<Rightarrow> string" where
  "unquote_item item =
     (case hextobyte (take 2 item) of
        Some b \<Rightarrow> b # drop 2 item
      | None \<Rightarrow> CHR ''%'' # item)"

definition unquote_to_bytes :: "string \<Rightarrow> bytes" where
  "unquote_to_bytes string =
     (if string = [] then []
      else let bits = split CHR ''%'' string in
        if length bits = 1 then string
        else hd bits @ concat (map unquote_item (tl bits)))"

text \<open>
  \<^verbatim>\<open>unquote\<close> decodes the ASCII runs of its argument with \<^verbatim>\<open>unquote_to_bytes\<close>. A
  byte beyond ASCII is neither \<^verbatim>\<open>%\<close> nor a hexadecimal digit, so on the UTF-8 bytes this
  is \<^verbatim>\<open>unquote_to_bytes\<close> of the whole argument.
\<close>

definition unquote :: "string \<Rightarrow> string" where
  "unquote string =
     (if CHR ''%'' \<notin> set string then string else unquote_to_bytes string)"

subsection \<open>Path names (\<^verbatim>\<open>posixpath\<close>)\<close>

definition join :: "string \<Rightarrow> string \<Rightarrow> string" where
  "join a b =
     (if startswith b ''/'' then b
      else if a = [] \<or> endswith a ''/'' then a @ b
      else a @ ''/'' @ b)"

definition isabs :: "string \<Rightarrow> bool" where
  "isabs s = startswith s ''/''"

text \<open>The body of the loop \<^verbatim>\<open>for comp in comps\<close> of \<^verbatim>\<open>normpath\<close>.\<close>

definition normpath_step :: "nat \<Rightarrow> string list \<Rightarrow> string \<Rightarrow> string list" where
  "normpath_step initial_slashes new_comps c =
     (if c = [] \<or> c = ''.'' then new_comps
      else if c \<noteq> ''..'' \<or> (initial_slashes = 0 \<and> new_comps = [])
              \<or> (new_comps \<noteq> [] \<and> last new_comps = ''..'')
      then new_comps @ [c]
      else if new_comps \<noteq> [] then butlast new_comps
      else new_comps)"

definition normpath :: "string \<Rightarrow> string" where
  "normpath path =
     (if path = [] then ''.''
      else let
        initial_slashes =
          (if startswith path ''/''
           then (if startswith path ''//'' \<and> \<not> startswith path ''///'' then 2 else 1)
           else (0::nat));
        comps = split CHR ''/'' path;
        new_comps = foldl (normpath_step initial_slashes) [] comps;
        path = join_sep ''/'' new_comps;
        path = (if initial_slashes \<noteq> 0 then replicate initial_slashes CHR ''/'' @ path
                else path)
      in if path = [] then ''.'' else path)"


text \<open>\<^verbatim>\<open>p.rfind('/') + 1\<close>: the length of the part up to and including the last slash.\<close>

definition rfind1 :: "char \<Rightarrow> string \<Rightarrow> nat" where
  "rfind1 c p = length p - length (takeWhile (\<lambda>x. x \<noteq> c) (rev p))"

definition dirname :: "string \<Rightarrow> string" where
  "dirname p =
     (let i = rfind1 CHR ''/'' p; head = take i p
      in if head \<noteq> [] \<and> head \<noteq> replicate (length head) CHR ''/''
         then rev (dropWhile (\<lambda>x. x = CHR ''/'') (rev head)) else head)"

text \<open>
  \<^verbatim>\<open>splitext(p)[1]\<close>: the extension runs from the last dot of the last component, unless
  that component has only dots before it.
\<close>

definition splitext_ext :: "string \<Rightarrow> string" where
  "splitext_ext p =
     (let sepIndex = rfind1 CHR ''/'' p; dotIndex = rfind1 CHR ''.'' p
      in if dotIndex > sepIndex
            \<and> (\<exists>x \<in> set (take (dotIndex - 1 - sepIndex) (drop sepIndex p)). x \<noteq> CHR ''.'')
         then drop (dotIndex - 1) p else [])"

subsection \<open>The file system and the \<^verbatim>\<open>os\<close> calls\<close>

datatype exn =
  FileNotFoundError | PermissionError | NotADirectoryError | IsADirectoryError
| ValueError

text \<open>The first four are subclasses of \<^verbatim>\<open>OSError\<close>; \<^verbatim>\<open>ValueError\<close> is not.\<close>

definition is_OSError :: "exn \<Rightarrow> bool" where
  "is_OSError e = (e \<noteq> ValueError)"

text \<open>
  A regular file has a read permission, a modification time (seconds) and a content; a
  directory has a read permission (listing), a search permission (passing through) and
  named entries.
\<close>

datatype node =
  File bool int bytes
| Dir bool bool "(string \<times> node) list"

text \<open>
  Path resolution, one component at a time, from a node whose ancestors (nearest first)
  are kept for the component \<^verbatim>\<open>..\<close>. An empty component comes from a doubled or
  trailing slash and looks nothing up; every other one needs the search permission.
\<close>

fun walk :: "node \<Rightarrow> node list \<Rightarrow> string list \<Rightarrow> exn + (node \<times> node list)" where
  "walk n anc [] = Inr (n, anc)"
| "walk (File r t d) anc (c # cs) = Inl NotADirectoryError"
| "walk (Dir r x es) anc (c # cs) =
     (if c = [] then walk (Dir r x es) anc cs
      else if \<not> x then Inl PermissionError
      else if c = ''.'' then walk (Dir r x es) anc cs
      else if c = ''..'' then
        (case anc of
           [] \<Rightarrow> walk (Dir r x es) [] cs
         | p # ps \<Rightarrow> walk p ps cs)
      else
        (case map_of es c of
           None \<Rightarrow> Inl FileNotFoundError
         | Some m \<Rightarrow> walk m (Dir r x es # anc) cs))"

text \<open>
  The world a request is served in: the file system, the working directory of the
  process, the clock, and what the platform provides and is taken as it comes:
  \<^verbatim>\<open>email.utils.formatdate(t, usegmt=True)\<close>; the instant that
  \<^verbatim>\<open>email.utils.parsedate_to_datetime\<close> reads from a header value, when it accepts the
  value and its time zone is UTC or absent; \<^verbatim>\<open>mimetypes.guess_type\<close>; and the text
  \<^verbatim>\<open>sys_version\<close> that names the interpreter.
\<close>

record world =
  fs :: node
  cwd :: string
  clock :: int
  formatdate :: "int \<Rightarrow> string"
  parsedate_utc :: "string \<Rightarrow> int option"
  mimetypes_guess_type :: "string \<Rightarrow> string option"
  sys_version :: string

text \<open>
  What every \<^verbatim>\<open>os\<close> call does with a path first: a path with a null character is
  refused with \<^verbatim>\<open>ValueError\<close> before the file system is asked, the empty path names
  nothing, an absolute path is resolved from the root of the tree and a relative one from
  the working directory.
\<close>

definition resolve :: "world \<Rightarrow> string \<Rightarrow> exn + (node \<times> node list)" where
  "resolve w path =
     (if CHR 0x00 \<in> set path then Inl ValueError
      else if path = [] then Inl FileNotFoundError
      else if isabs path then walk (fs w) [] (split CHR ''/'' path)
      else (case walk (fs w) [] (split CHR ''/'' (cwd w)) of
              Inl e \<Rightarrow> Inl e
            | Inr (n, anc) \<Rightarrow> walk n anc (split CHR ''/'' path)))"

definition os_getcwd :: "world \<Rightarrow> string" where
  "os_getcwd w = cwd w"

definition os_listdir :: "world \<Rightarrow> string \<Rightarrow> exn + string list" where
  "os_listdir w path =
     (case resolve w path of
        Inl e \<Rightarrow> Inl e
      | Inr (File r t d, anc) \<Rightarrow> Inl NotADirectoryError
      | Inr (Dir r x es, anc) \<Rightarrow> if r then Inr (map fst es) else Inl PermissionError)"

definition os_path_isdir :: "world \<Rightarrow> string \<Rightarrow> bool" where
  "os_path_isdir w path =
     (case resolve w path of Inr (Dir r x es, anc) \<Rightarrow> True | _ \<Rightarrow> False)"

text \<open>\<^verbatim>\<open>open(path, 'rb')\<close>: the file object gives the modification time and the content.\<close>

definition open_rb :: "world \<Rightarrow> string \<Rightarrow> exn + (int \<times> bytes)" where
  "open_rb w path =
     (case resolve w path of
        Inl e \<Rightarrow> Inl e
      | Inr (Dir r x es, anc) \<Rightarrow> Inl IsADirectoryError
      | Inr (File r t d, anc) \<Rightarrow> if r then Inr (t, d) else Inl PermissionError)"

text \<open>
  What the operating system guarantees of a directory: its entry names are distinct,
  non-empty, without a slash or a null character, and neither \<^verbatim>\<open>.\<close> nor \<^verbatim>\<open>..\<close>.
\<close>

definition valid_name :: "string \<Rightarrow> bool" where
  "valid_name name =
     (name \<noteq> [] \<and> CHR ''/'' \<notin> set name \<and> CHR 0x00 \<notin> set name
      \<and> name \<noteq> ''.'' \<and> name \<noteq> ''..'')"

fun wf_node :: "node \<Rightarrow> bool" where
  "wf_node (File r t d) = True"
| "wf_node (Dir r x es) =
     (distinct (map fst es) \<and> (\<forall>(name, n) \<in> set es. valid_name name \<and> wf_node n))"

subsection \<open>JSON text (\<^verbatim>\<open>json.dumps\<close> of a list of strings)\<close>

text \<open>
  The encoder works on code points. A name read from the directory is decoded from its
  bytes as \<^verbatim>\<open>os.listdir\<close> does: a well-formed UTF-8 sequence gives its code point, any
  other byte \<open>b\<close> the lone surrogate \<open>0xDC00 + b\<close>.
\<close>

definition cont :: "nat \<Rightarrow> bool" where
  "cont b = (128 \<le> b \<and> b \<le> 191)"

definition utf8_head :: "nat list \<Rightarrow> (nat \<times> nat) option" where
  "utf8_head bs =
     (case bs of
        [] \<Rightarrow> None
      | b1 # rest \<Rightarrow>
          if b1 < 128 then Some (b1, 1)
          else if 194 \<le> b1 \<and> b1 \<le> 223 then
            (case rest of
               b2 # _ \<Rightarrow>
                 if cont b2 then Some ((b1 - 192) * 64 + (b2 - 128), 2) else None
             | _ \<Rightarrow> None)
          else if 224 \<le> b1 \<and> b1 \<le> 239 then
            (case rest of
               b2 # b3 # _ \<Rightarrow>
                 if cont b2 \<and> cont b3 \<and> (if b1 = 224 then 160 \<le> b2 else True)
                    \<and> (if b1 = 237 then b2 \<le> 159 else True)
                 then Some (((b1 - 224) * 64 + (b2 - 128)) * 64 + (b3 - 128), 3)
                 else None
             | _ \<Rightarrow> None)
          else if 240 \<le> b1 \<and> b1 \<le> 244 then
            (case rest of
               b2 # b3 # b4 # _ \<Rightarrow>
                 if cont b2 \<and> cont b3 \<and> cont b4 \<and> (if b1 = 240 then 144 \<le> b2 else True)
                    \<and> (if b1 = 244 then b2 \<le> 143 else True)
                 then Some ((((b1 - 240) * 64 + (b2 - 128)) * 64 + (b3 - 128)) * 64
                            + (b4 - 128), 4)
                 else None
             | _ \<Rightarrow> None)
          else None)"

function code_points :: "nat list \<Rightarrow> nat list" where
  "code_points [] = []"
| "code_points (b # bs) =
     (case utf8_head (b # bs) of
        Some (cp, k) \<Rightarrow> cp # code_points (drop (k - 1) bs)
      | None \<Rightarrow> (56320 + b) # code_points bs)"
  by pat_completeness auto
termination
  by (relation "measure length") auto

text \<open>\<^verbatim>\<open>'{0:04x}'.format(n)\<close>: lower-case hexadecimal, at least four digits.\<close>

function hex :: "nat \<Rightarrow> string" where
  "hex n =
     (if n < 16 then [''0123456789abcdef'' ! n]
      else hex (n div 16) @ [''0123456789abcdef'' ! (n mod 16)])"
  by pat_completeness auto
termination
  by (relation "measure id") auto

declare hex.simps [simp del]

definition hex04 :: "nat \<Rightarrow> string" where
  "hex04 n = replicate (4 - length (hex n)) CHR ''0'' @ hex n"

text \<open>
  The function \<^verbatim>\<open>replace\<close> of \<^verbatim>\<open>py_encode_basestring_ascii\<close>, together with the
  pattern \<^verbatim>\<open>ESCAPE_ASCII\<close> that selects the characters it is applied to: a backslash, a
  double quote, and everything outside the range from space to tilde.
\<close>

definition replace :: "nat \<Rightarrow> string" where
  "replace n =
     (if n = 92 then [CHR 0x5C, CHR 0x5C]
      else if n = 34 then [CHR 0x5C, CHR 0x22]
      else if 32 \<le> n \<and> n \<le> 126 then [char_of n]
      else if n = 8 then [CHR 0x5C, CHR ''b'']
      else if n = 12 then [CHR 0x5C, CHR ''f'']
      else if n = 10 then [CHR 0x5C, CHR ''n'']
      else if n = 13 then [CHR 0x5C, CHR ''r'']
      else if n = 9 then [CHR 0x5C, CHR ''t'']
      else if n < 65536 then [CHR 0x5C, CHR ''u''] @ hex04 n
      else let m = n - 65536;
               s1 = 55296 + (m div 1024) mod 1024;
               s2 = 56320 + m mod 1024
           in [CHR 0x5C, CHR ''u''] @ hex04 s1 @ [CHR 0x5C, CHR ''u''] @ hex04 s2)"

text \<open>
  The characters that the pattern \<^verbatim>\<open>ESCAPE_ASCII\<close> does not match, which therefore stand
  for themselves in the JSON text.
\<close>

definition unescaped :: "char \<Rightarrow> bool" where
  "unescaped c =
     (let n = (of_char c :: nat) in 32 \<le> n \<and> n \<le> 126 \<and> n \<noteq> 34 \<and> n \<noteq> 92)"

text \<open>
  Where the bytes of a text and Python's \<^verbatim>\<open>str\<close> agree. A request target is ASCII, as HTTP
  has it (\<^verbatim>\<open>str.isascii\<close>); and a byte string is well-formed UTF-8 when its decoding has
  no lone surrogate, so that decoding it (\<^verbatim>\<open>errors='surrogatepass'\<close> in
  \<^verbatim>\<open>translate_path\<close>) and encoding it again for the file system are inverse.
\<close>

definition isascii :: "string \<Rightarrow> bool" where
  "isascii s = list_all (\<lambda>c. (of_char c :: nat) < 128) s"

definition well_formed_utf8 :: "bytes \<Rightarrow> bool" where
  "well_formed_utf8 s =
     list_all (\<lambda>cp. cp < 55296 \<or> 57343 < cp) (code_points (map of_char s))"

definition encode_basestring_ascii :: "string \<Rightarrow> string" where
  "encode_basestring_ascii s =
     [CHR 0x22] @ concat (map replace (code_points (map of_char s))) @ [CHR 0x22]"

definition json_dumps :: "string list \<Rightarrow> string" where
  "json_dumps lst =
     (if lst = [] then ''[]''
      else ''['' @ join_sep '', '' (map encode_basestring_ascii lst) @ '']'')"

subsection \<open>Requests and responses (\<^verbatim>\<open>http.server.BaseHTTPRequestHandler\<close>)\<close>

text \<open>
  Of the handler object, \<^verbatim>\<open>self.path\<close> (the request target as the request line has it)
  and \<^verbatim>\<open>self.headers\<close> are inputs. What the handler sends is kept in structured form: the
  status code and reason phrase of \<^verbatim>\<open>send_response\<close>, the header lines in the order of
  the \<^verbatim>\<open>send_header\<close> calls, and the bytes written to \<^verbatim>\<open>self.wfile\<close> after
  \<^verbatim>\<open>end_headers\<close>. The rendering of status line and headers on the wire is not modelled
  (the library omits both for a request line without a protocol version).
\<close>

record request =
  self_path :: string
  self_headers :: "(string \<times> string) list"

record response =
  status :: nat
  reason :: string
  headers :: "(string \<times> string) list"
  body :: bytes

text \<open>\<^verbatim>\<open>name in self.headers\<close> and \<^verbatim>\<open>self.headers[name]\<close>: names compare without case.\<close>

definition has_header :: "request \<Rightarrow> string \<Rightarrow> bool" where
  "has_header rq name = (lower name \<in> set (map (\<lambda>(k, v). lower k) (self_headers rq)))"

definition get_header :: "request \<Rightarrow> string \<Rightarrow> string option" where
  "get_header rq name = map_of (map (\<lambda>(k, v). (lower k, v)) (self_headers rq)) (lower name)"

text \<open>The entries of the table \<^verbatim>\<open>responses\<close> for the codes this server sends.\<close>

definition responses :: "nat \<Rightarrow> (string \<times> string) option" where
  "responses code =
     (if code = 200 then Some (''OK'', ''Request fulfilled, document follows'')
      else if code = 301
        then Some (''Moved Permanently'', ''Object moved permanently -- see URI list'')
      else if code = 304
        then Some (''Not Modified'', ''Document has not changed since given time'')
      else if code = 404 then Some (''Not Found'', ''Nothing matches the given URI'')
      else None)"

definition version_string :: "world \<Rightarrow> string" where
  "version_string w = ''SimpleHTTP/0.6'' @ '' '' @ sys_version w"

definition date_time_string :: "world \<Rightarrow> int option \<Rightarrow> string" where
  "date_time_string w timestamp =
     formatdate w (case timestamp of None \<Rightarrow> clock w | Some t \<Rightarrow> t)"

definition send_header :: "string \<Rightarrow> string \<Rightarrow> response \<Rightarrow> response" where
  "send_header keyword v r = r\<lparr>headers := headers r @ [(keyword, v)]\<rparr>"

definition send_response :: "world \<Rightarrow> nat \<Rightarrow> string option \<Rightarrow> response" where
  "send_response w code message =
     send_header ''Date'' (date_time_string w None)
       (send_header ''Server'' (version_string w)
          \<lparr>status = code,
           reason = (case message of
                       Some m \<Rightarrow> m
                     | None \<Rightarrow> (case responses code of Some (m, l) \<Rightarrow> m | None \<Rightarrow> [])),
           headers = [], body = []\<rparr>)"

definition end_headers :: "response \<Rightarrow> response" where
  "end_headers r = r"

definition wfile_write :: "bytes \<Rightarrow> response \<Rightarrow> response" where
  "wfile_write b r = r\<lparr>body := body r @ b\<rparr>"

definition encode :: "string \<Rightarrow> bytes" where
  "encode s = s"

text \<open>\<^verbatim>\<open>html.escape(s, quote=False)\<close>.\<close>

definition html_escape :: "string \<Rightarrow> string" where
  "html_escape s =
     concat (map (\<lambda>c. if c = CHR ''&'' then ''&amp;''
                       else if c = CHR ''<'' then ''&lt;''
                       else if c = CHR ''>'' then ''&gt;'' else [c]) s)"

text \<open>\<^verbatim>\<open>DEFAULT_ERROR_MESSAGE % {'code': code, 'message': message, 'explain': explain}\<close>.\<close>

definition error_message_format :: "nat \<Rightarrow> string \<Rightarrow> string \<Rightarrow> string" where
  "error_message_format code message explain =
     ''<!DOCTYPE HTML>\<newline>'' @
     ''<html lang='' @ [CHR 0x22] @ ''en'' @ [CHR 0x22] @ ''>\<newline>'' @
     ''    <head>\<newline>'' @
     ''        <meta charset='' @ [CHR 0x22] @ ''utf-8'' @ [CHR 0x22] @ ''>\<newline>'' @
     ''        <title>Error response</title>\<newline>'' @
     ''    </head>\<newline>'' @
     ''    <body>\<newline>'' @
     ''        <h1>Error response</h1>\<newline>'' @
     ''        <p>Error code: '' @ str_of_nat code @ ''</p>\<newline>'' @
     ''        <p>Message: '' @ message @ ''.</p>\<newline>'' @
     ''        <p>Error code explanation: '' @ str_of_nat code @ '' - '' @ explain
       @ ''.</p>\<newline>'' @
     ''    </body>\<newline>'' @
     ''</html>\<newline>''"

text \<open>\<^verbatim>\<open>send_error(code, message)\<close> while serving a GET, for a code from 200 on that carries a body.\<close>

definition send_error :: "world \<Rightarrow> nat \<Rightarrow> string \<Rightarrow> response" where
  "send_error w code message =
     (let explain = (case responses code of Some (m, l) \<Rightarrow> l | None \<Rightarrow> ''???'');
          r = send_header ''Connection'' ''close'' (send_response w code (Some message));
          content = error_message_format code (html_escape message) (html_escape explain);
          body = encode content;
          r = send_header ''Content-Type'' ''text/html;charset=utf-8'' r;
          r = send_header ''Content-Length'' (str_of_nat (length body)) r;
          r = end_headers r
      in wfile_write body r)"

subsection \<open>Static files (\<^verbatim>\<open>http.server.SimpleHTTPRequestHandler\<close>)\<close>

text \<open>
  A simple file or directory name, in the words of the comment in \<^verbatim>\<open>translate_path\<close>:
  what remains of the words of the path after its loop has dropped the others.
\<close>

definition simple_name :: "string \<Rightarrow> bool" where
  "simple_name word =
     (word \<noteq> [] \<and> CHR ''/'' \<notin> set word \<and> word \<noteq> ''.'' \<and> word \<noteq> ''..'')"

definition translate_path :: "string \<Rightarrow> string \<Rightarrow> string" where
  "translate_path directory p =
     (let path = hd (split1 CHR ''?'' p);
          path = hd (split1 CHR ''#'' path);
          trailing_slash = endswith (rstrip path) ''/'';
          path = unquote path;
          path = normpath path;
          words = split CHR ''/'' path;
          words = filter (\<lambda>word. word \<noteq> []) words;
          path = foldl (\<lambda>path word.
                   if dirname word \<noteq> [] \<or> word = ''.'' \<or> word = ''..'' then path
                   else join path word) directory words
      in if trailing_slash then path @ ''/'' else path)"

text \<open>
  The words that the loop of \<^verbatim>\<open>translate_path\<close> joins to the directory, named so that
  properties of the path can be stated: the words of the decoded, normalised path that
  are neither empty nor \<^verbatim>\<open>.\<close> nor \<^verbatim>\<open>..\<close>.
\<close>

definition joined_words :: "string \<Rightarrow> string list" where
  "joined_words p =
     filter (\<lambda>word. word \<noteq> ''.'' \<and> word \<noteq> ''..'')
       (filter (\<lambda>word. word \<noteq> [])
          (split CHR ''/''
             (normpath (unquote (hd (split1 CHR ''#'' (hd (split1 CHR ''?'' p))))))))"

text \<open>
  The request targets for which the bytes kept here and Python's \<^verbatim>\<open>str\<close> agree all the
  way to the file system: the target is ASCII and the path that \<^verbatim>\<open>translate_path\<close>
  decodes from it is well-formed UTF-8.
\<close>

definition text_target :: "string \<Rightarrow> bool" where
  "text_target p =
     (isascii p
      \<and> well_formed_utf8 (unquote (hd (split1 CHR ''#'' (hd (split1 CHR ''?'' p))))))"

text \<open>The table \<^verbatim>\<open>extensions_map\<close> of the class.\<close>

definition extensions_map :: "string \<Rightarrow> string option" where
  "extensions_map = map_of
     [(''.gz'', ''application/gzip''),
      (''.Z'', ''application/octet-stream''),
      (''.bz2'', ''application/x-bzip2''),
      (''.xz'', ''application/x-xz'')]"

definition guess_type :: "world \<Rightarrow> string \<Rightarrow> string" where
  "guess_type w path =
     (let ext = splitext_ext path in
      case extensions_map ext of
        Some t \<Rightarrow> t
      | None \<Rightarrow>
          (case extensions_map (lower ext) of
             Some t \<Rightarrow> t
           | None \<Rightarrow>
               (case mimetypes_guess_type w path of
                  Some guess \<Rightarrow> if guess \<noteq> [] then guess else ''application/octet-stream''
                | None \<Rightarrow> ''application/octet-stream'')))"

text \<open>
  A reply is a response, or the mark that \<^verbatim>\<open>send_head\<close> took its branch for a
  directory (a redirect to the name with a slash, an index file or a generated
  listing), which is not modelled further: it rests on \<^verbatim>\<open>urllib.parse.urlsplit\<close> and on
  \<^verbatim>\<open>list_directory\<close>, and no property stated here reads it.
\<close>

datatype reply = Sent response | Directory_branch string

text \<open>
  The test of \<^verbatim>\<open>send_head\<close> for the browser's cached copy: the header
  \<^verbatim>\<open>If-Modified-Since\<close> is there, \<^verbatim>\<open>If-None-Match\<close> is not, the date is read, and the
  file is not newer.
\<close>

definition not_modified :: "world \<Rightarrow> request \<Rightarrow> int \<Rightarrow> bool" where
  "not_modified w rq st_mtime =
     (if has_header rq ''If-Modified-Since'' \<and> \<not> has_header rq ''If-None-Match'' then
        (case get_header rq ''If-Modified-Since'' of
           None \<Rightarrow> False
         | Some v \<Rightarrow>
             (case parsedate_utc w v of
                None \<Rightarrow> False
              | Some ims \<Rightarrow> st_mtime \<le> ims))
      else False)"

text \<open>
  \<^verbatim>\<open>send_head\<close> returns what it has sent and the open file, if the caller is to copy it.
  Around \<^verbatim>\<open>open\<close> it catches \<^verbatim>\<open>OSError\<close> only; any other exception leaves the method,
  and nothing has been sent then.
\<close>

definition send_head :: "world \<Rightarrow> request \<Rightarrow> exn + (reply \<times> (int \<times> bytes) option)" where
  "send_head w rq =
     (let path = translate_path (os_getcwd w) (self_path rq) in
      if os_path_isdir w path then Inr (Directory_branch path, None)
      else let ctype = guess_type w path in
        if endswith path ''/'' then Inr (Sent (send_error w 404 ''File not found''), None)
        else
          (case open_rb w path of
             Inl e \<Rightarrow>
               if is_OSError e then Inr (Sent (send_error w 404 ''File not found''), None)
               else Inl e
           | Inr (st_mtime, content) \<Rightarrow>
               if not_modified w rq st_mtime
               then Inr (Sent (end_headers (send_response w 304 None)), None)
               else let
                   r = send_response w 200 None;
                   r = send_header ''Content-type'' ctype r;
                   r = send_header ''Content-Length'' (str_of_nat (length content)) r;
                   r = send_header ''Last-Modified'' (date_time_string w (Some st_mtime)) r;
                   r = end_headers r
                 in Inr (Sent r, Some (st_mtime, content))))"

text \<open>\<^verbatim>\<open>SimpleHTTPRequestHandler.do_GET\<close>: the file that \<^verbatim>\<open>send_head\<close> returns is copied out.\<close>

definition SimpleHTTPRequestHandler_do_GET :: "world \<Rightarrow> request \<Rightarrow> exn + reply" where
  "SimpleHTTPRequestHandler_do_GET w rq =
     (case send_head w rq of
        Inl e \<Rightarrow> Inl e
      | Inr (Sent r, Some (st_mtime, content)) \<Rightarrow> Inr (Sent (wfile_write content r))
      | Inr (sent, _) \<Rightarrow> Inr sent)"

text \<open>
  The response that \<^verbatim>\<open>send_head\<close> and the copy build for a file, as one term: the
  calls of the last branch of \<^verbatim>\<open>send_head\<close>, then the content.
\<close>

definition file_response :: "world \<Rightarrow> string \<Rightarrow> int \<Rightarrow> bytes \<Rightarrow> response" where
  "file_response w path st_mtime content =
     wfile_write content
       (end_headers
          (send_header ''Last-Modified'' (date_time_string w (Some st_mtime))
             (send_header ''Content-Length'' (str_of_nat (length content))
                (send_header ''Content-type'' (guess_type w path)
                   (send_response w 200 None)))))"

subsection \<open>The program: \<^verbatim>\<open>src/mp3.py\<close>\<close>

definition AUDIO_EXT :: string where
  "AUDIO_EXT = ''.mp3''"

text \<open>
  The constant \<^verbatim>\<open>PLAYER_HTML\<close>, line by line; a double quote is \<open>CHR 0x22\<close>, and a
  character beyond ASCII is written as its UTF-8 bytes.
\<close>

definition PLAYER_HTML :: string where
  "PLAYER_HTML = join_sep ''\<newline>''
     [''<!doctype html>'',
      ''<html>'',
      ''<head>'',
      ''<meta charset='' @ [CHR 0x22] @ ''utf-8'' @ [CHR 0x22] @ ''/>'',
      ''<title>mp3srv + real-time EQ</title>'',
      ''<style>'',
      ''  body{font-family:sans-serif;text-align:center;margin:0;background:#111;color:#eee}'',
      ''  #now{margin:8px 0;font-weight:bold}'',
      ''  button{width:4.5em;height:2.2em;margin:.2em;font-size:1em}'',
      ''  #a{display:none}'',
      ''  #eq{display:flex;justify-content:center;align-items:end;height:120px;margin:10px 0}'',
      ''  .bar{width:6px;margin:1px;background:#0f0;min-height:2px}'',
      ''  #controls{margin:10px auto;width:320px;display:flex;flex-direction:column}'',
      ''  .band{display:flex;justify-content:space-between;align-items:center;margin:3px 0}'',
      ''  .band input{width:200px}'',
      ''</style>'',
      ''</head>'',
      ''<body>'',
      ''  <div id='' @ [CHR 0x22] @ ''now'' @ [CHR 0x22] @ ''>loading'' @ [CHR 0xE2, CHR 0x80, CHR 0xA6] @ ''</div>'',
      '''',
      ''  <audio id='' @ [CHR 0x22] @ ''a'' @ [CHR 0x22] @ '' preload='' @ [CHR 0x22] @ ''metadata'' @ [CHR 0x22] @ ''></audio>'',
      '''',
      ''  <!-- spectrum visualizer -->'',
      ''  <div id='' @ [CHR 0x22] @ ''eq'' @ [CHR 0x22] @ ''></div>'',
      '''',
      ''  <!-- EQ sliders -->'',
      ''  <div id='' @ [CHR 0x22] @ ''controls'' @ [CHR 0x22] @ ''></div>'',
      '''',
      ''  <!-- transport -->'',
      ''  <button onclick='' @ [CHR 0x22] @ ''prev()'' @ [CHR 0x22] @ ''>'' @ [CHR 0xE2, CHR 0x8F, CHR 0xAE] @ ''</button>'',
      ''  <button onclick='' @ [CHR 0x22] @ ''toggle()'' @ [CHR 0x22] @ ''>'' @ [CHR 0xE2, CHR 0x8F, CHR 0xAF] @ ''</button>'',
      ''  <button onclick='' @ [CHR 0x22] @ ''next()'' @ [CHR 0x22] @ ''>'' @ [CHR 0xE2, CHR 0x8F, CHR 0xAD] @ ''</button>'',
      '''',
      ''<script>'',
      ''/* ---------- playlist ---------- */'',
      ''let idx = 0, list = [];'',
      ''const a   = document.getElementById('a');'',
      ''const now = document.getElementById('now');'',
      '''',
      ''fetch('/playlist.json')'',
      ''  .then(r => r.json())'',
      ''  .then(files => {'',
      ''      list = files;'',
      ''      if (list.length) { setupEQ(); load(0); }'',
      ''      else now.textContent = 'No mp3 files found.';'',
      ''  });'',
      '''',
      ''/* ---------- Web Audio setup ---------- */'',
      ''let ctx, source, analyser, bands=[], gains=[];'',
      '''',
      ''function setupEQ(){'',
      ''  ctx = new (window.AudioContext || window.webkitAudioContext)();'',
      ''  source = ctx.createMediaElementSource(a);'',
      '''',
      ''  /* 10 octave-spaced bands (approx) */'',
      ''  const freqs = [32, 64, 125, 250, 500, 1000, 2000, 4000, 8000, 16000];'',
      ''  freqs.forEach((f,i)=>{'',
      ''    const filter = ctx.createBiquadFilter();'',
      ''    filter.type = 'peaking';'',
      ''    filter.frequency.value = f;'',
      ''    filter.Q.value  = Math.SQRT2;          // '' @ [CHR 0xE2, CHR 0x89, CHR 0x88] @ '' 1.41'',
      ''    filter.gain.value = 0;                 // flat'',
      ''    bands.push(filter);'',
      ''    gains.push(filter.gain);'',
      '''',
      ''    /* UI slider */'',
      ''    const row = document.createElement('div');'',
      ''    row.className = 'band';'',
      ''    row.innerHTML = `'',
      ''      <label>${f} Hz</label>'',
      ''      <input type='' @ [CHR 0x22] @ ''range'' @ [CHR 0x22] @ '' min='' @ [CHR 0x22] @ ''-12'' @ [CHR 0x22] @ '' max='' @ [CHR 0x22] @ ''12'' @ [CHR 0x22] @ '' value='' @ [CHR 0x22] @ ''0'' @ [CHR 0x22] @ '' step='' @ [CHR 0x22] @ ''0.5'' @ [CHR 0x22] @ ''>'',
      ''      <span>0 dB</span>`;'',
      ''    const slider = row.querySelector('input');'',
      ''    const span   = row.querySelector('span');'',
      ''    slider.addEventListener('input', e=>{'',
      ''      const g = parseFloat(e.target.value);'',
      ''      gains[i].value = g;'',
      ''      span.textContent = g + ' dB';'',
      ''    });'',
      ''    document.getElementById('controls').appendChild(row);'',
      ''  });'',
      '''',
      ''  /* chain: source '' @ [CHR 0xE2, CHR 0x86, CHR 0x92] @ '' filters '' @ [CHR 0xE2, CHR 0x86, CHR 0x92] @ '' analyser '' @ [CHR 0xE2, CHR 0x86, CHR 0x92] @ '' destination */'',
      ''  let node = source;'',
      ''  bands.forEach(b=>{ node.connect(b); node = b; });'',
      ''  analyser = ctx.createAnalyser();'',
      ''  analyser.fftSize = 1024;'',
      ''  node.connect(analyser).connect(ctx.destination);'',
      '''',
      ''  /* spectrum visualizer */'',
      ''  const bufferLength = analyser.frequencyBinCount;'',
      ''  const dataArray    = new Uint8Array(bufferLength);'',
      ''  const eqDiv        = document.getElementById('eq');'',
      ''  for (let i=0;i<64;i++){'',
      ''    const bar = document.createElement('div');'',
      ''    bar.className = 'bar';'',
      ''    eqDiv.appendChild(bar);'',
      ''  }'',
      ''  const bars = eqDiv.children;'',
      ''  function draw(){'',
      ''    analyser.getByteFrequencyData(dataArray);'',
      ''    for (let i=0;i<bars.length;i++){'',
      ''      const h = dataArray[i*4];'',
      ''      bars[i].style.height = (h/2) + 'px';'',
      ''    }'',
      ''    requestAnimationFrame(draw);'',
      ''  }'',
      ''  draw();'',
      ''}'',
      '''',
      ''/* ---------- player helpers ---------- */'',
      ''function load(i){'',
      ''  idx = (i + list.length) % list.length;'',
      ''  now.textContent = `Now playing: ${list[idx]}`;'',
      ''  a.src = encodeURIComponent(list[idx]);'',
      ''  a.play();'',
      ''}'',
      ''function next(){load(idx+1);}'',
      ''function prev(){load(idx-1);}'',
      ''function toggle(){'',
      ''  if (ctx.state === 'suspended') ctx.resume();'',
      ''  a.paused ? a.play() : a.pause();'',
      ''}'',
      ''a.addEventListener('ended', next);'',
      ''</script>'',
      ''</body>'',
      ''</html>'']"

definition send_html :: "world \<Rightarrow> string \<Rightarrow> response" where
  "send_html w html =
     (let r = send_response w 200 None;
          r = send_header ''Content-Type'' ''text/html; charset=utf-8'' r;
          r = end_headers r
      in wfile_write (encode html) r)"

definition send_json :: "world \<Rightarrow> string list \<Rightarrow> response" where
  "send_json w obj =
     (let r = send_response w 200 None;
          r = send_header ''Content-Type'' ''application/json'' r;
          r = end_headers r
      in wfile_write (encode (json_dumps obj)) r)"

text \<open>
  \<^verbatim>\<open>Handler.do_GET\<close>. It catches nothing: an exception of \<^verbatim>\<open>os.listdir\<close> or of the
  inherited method is its own outcome.
\<close>

definition do_GET :: "world \<Rightarrow> request \<Rightarrow> exn + reply" where
  "do_GET w rq =
     (let path = unquote (hd (split1 CHR ''?'' (self_path rq))) in
      if path = ''/playlist.json'' then
        (case os_listdir w ''.'' of
           Inl e \<Rightarrow> Inl e
         | Inr names \<Rightarrow>
             (let files = filter (\<lambda>f. endswith (lower f) AUDIO_EXT) names
              in Inr (Sent (send_json w files))))
      else if path = ''/'' then Inr (Sent (send_html w PLAYER_HTML))
      else SimpleHTTPRequestHandler_do_GET w rq)"

subsection \<open>The serving loop (\<^verbatim>\<open>socketserver.BaseServer\<close>) and the start-up\<close>

text \<open>
  \<^verbatim>\<open>_handle_request_noblock\<close> runs the handler inside \<^verbatim>\<open>try ... except Exception\<close>: an
  exception that leaves \<^verbatim>\<open>do_GET\<close> is reported on the standard error stream by
  \<^verbatim>\<open>handle_error\<close> and the connection is shut down; nothing has been sent on it.
\<close>

datatype served = Answered reply | Dropped exn

definition handle_request_noblock :: "world \<Rightarrow> request \<Rightarrow> served" where
  "handle_request_noblock w rq =
     (case do_GET w rq of
        Inr r \<Rightarrow> Answered r
      | Inl e \<Rightarrow> Dropped e)"

text \<open>
  \<^verbatim>\<open>serve_forever\<close> on the requests that arrive, each in the state the world has then.
\<close>

fun serve_forever :: "(world \<times> request) list \<Rightarrow> served list" where
  "serve_forever [] = []"
| "serve_forever ((w, rq) # rest) = handle_request_noblock w rq # serve_forever rest"




text \<open>A small world for the examples: the served root is \<^verbatim>\<open>/srv/music\<close>.\<close>

definition example_root :: node where
  "example_root =
     Dir True True
       [(''a.mp3'', File True 5 ''abcdef''),
        (''b.MP3'', File False 6 ''xyz''),
        (''c.txt'', File True 7 ''c''),
        (''.Mp3'', File True 9 ''m''),
        (''secret.txt'', File True 8 ''inside'')]"

definition example_srv :: node where
  "example_srv =
     Dir True True [(''secret.txt'', File True 0 ''outside''), (''music'', example_root)]"

definition example_fs :: node where
  "example_fs = Dir True True [(''srv'', example_srv)]"

definition example_world :: world where
  "example_world =
     \<lparr>fs = example_fs, cwd = ''/srv/music'', clock = 100,
      formatdate = (\<lambda>t. str_of_nat (nat t)),
      parsedate_utc = (\<lambda>v. None),
      mimetypes_guess_type =
        (\<lambda>path. if endswith (lower path) ''.mp3'' then Some ''audio/mpeg'' else None),
      sys_version = ''Python/3.11.10''\<rparr>"

text \<open>The same world after the served root has lost its read permission.\<close>

definition unreadable_world :: world where
  "unreadable_world =
     example_world\<lparr>fs :=
       Dir True True
         [(''srv'', Dir True True
            [(''music'', Dir False True [(''a.mp3'', File True 5 ''abcdef'')])])]\<rparr>"

text \<open>The same world with nothing in the served root.\<close>

definition empty_world :: world where
  "empty_world =
     example_world\<lparr>fs := Dir True True [(''srv'', Dir True True [(''music'', Dir True True [])])]\<rparr>"

section \<open>Properties\<close>

subsection \<open>Strings and percent-decoding\<close>

lemma split1_neq_Nil: "split1 c s \<noteq> []"
  by (induction s) (auto split: list.splits)

lemma split_neq_Nil: "split c s \<noteq> []"
  by (induction s) (auto split: list.splits)

lemma hd_split1: "hd (split1 c s) = takeWhile (\<lambda>x. x \<noteq> c) s"
  by (induction s) (auto split: list.splits simp: split1_neq_Nil)

lemma endswith_iff: "endswith s suf \<longleftrightarrow> (\<exists>stem. s = stem @ suf)"
proof
  assume "endswith s suf"
  then have "s = take (length s - length suf) s @ suf"
    unfolding endswith_def by (metis append_take_drop_id)
  then show "\<exists>stem. s = stem @ suf" ..
next
  assume "\<exists>stem. s = stem @ suf"
  then show "endswith s suf"
    unfolding endswith_def by auto
qed

lemma send_response_status: "status (send_response w code m) = code"
  by (simp add: send_response_def send_header_def)

lemma send_json_fields:
  "status (send_json w obj) = 200"
  "headers (send_json w obj) = [(''Server'', version_string w), (''Date'', date_time_string w None), (''Content-Type'', ''application/json'')]"
  "body (send_json w obj) = json_dumps obj"
  by (simp_all add: send_json_def send_response_def send_header_def end_headers_def wfile_write_def encode_def Let_def)

lemma send_html_fields:
  "status (send_html w obj) = 200"
  "headers (send_html w obj) = [(''Server'', version_string w), (''Date'', date_time_string w None), (''Content-Type'', ''text/html; charset=utf-8'')]"
  "body (send_html w obj) = obj"
  by (simp_all add: send_html_def send_response_def send_header_def end_headers_def wfile_write_def encode_def Let_def)

lemma split_no_sep: "c \<notin> set s \<Longrightarrow> split c s = [s]"
  by (induction s) auto

lemma split_sep_length: "c \<in> set s \<Longrightarrow> length (split c s) \<noteq> Suc 0"
  by (induction s) (auto split: list.splits simp: split_neq_Nil)

lemma split_append: "split c (p @ c # r) = split c p @ split c r"
  by (induction p) (auto split: list.splits simp: split_neq_Nil)

lemma split_Cons_other:
  "x \<noteq> c \<Longrightarrow> split c (x # s) = (x # hd (split c s)) # tl (split c s)"
  by (auto split: list.splits simp: split_neq_Nil)

lemma split_append_nosep:
  "c \<notin> set p \<Longrightarrow> split c (p @ s) = (p @ hd (split c s)) # tl (split c s)"
  by (induction p) (auto split: list.splits simp: split_neq_Nil)

lemma unquote_bits:
  "unquote s = hd (split CHR ''%'' s) @ concat (map unquote_item (tl (split CHR ''%'' s)))"
proof (cases "CHR ''%'' \<in> set s")
  case False
  then show ?thesis by (simp add: unquote_def split_no_sep)
next
  case True
  then have "s \<noteq> []" by auto
  with True show ?thesis
    by (simp add: unquote_def unquote_to_bytes_def Let_def split_sep_length)
qed

lemma hextobyte_3F: "hextobyte ''3F'' = Some CHR ''?''"
  by code_simp

lemma unquote_item_3F: "unquote_item (''3F'' @ h) = CHR ''?'' # h"
  using hextobyte_3F by (simp add: unquote_item_def)

lemma unquote_encoded_question:
  "unquote (p @ ''%3F'' @ q) = unquote p @ ''?'' @ unquote q"
proof -
  let ?P = "split CHR ''%'' p" and ?Q = "split CHR ''%'' q"
  have "split CHR ''%'' (''3F'' @ q) = (''3F'' @ hd ?Q) # tl ?Q"
    by (rule split_append_nosep) simp
  then have bits: "split CHR ''%'' (p @ ''%3F'' @ q) = ?P @ (''3F'' @ hd ?Q) # tl ?Q"
    using split_append [of "CHR ''%''" p "''3F'' @ q"] by simp
  have "?P \<noteq> []" by (rule split_neq_Nil)
  then have "hd (?P @ (''3F'' @ hd ?Q) # tl ?Q) = hd ?P"
    and "tl (?P @ (''3F'' @ hd ?Q) # tl ?Q) = tl ?P @ (''3F'' @ hd ?Q) # tl ?Q"
    by simp_all
  then have "unquote (p @ ''%3F'' @ q)
      = hd ?P @ concat (map unquote_item (tl ?P)) @ unquote_item (''3F'' @ hd ?Q)
        @ concat (map unquote_item (tl ?Q))"
    unfolding unquote_bits [of "p @ ''%3F'' @ q"] bits by simp
  also have "\<dots> = unquote p @ ''?'' @ unquote q"
    unfolding unquote_bits [of p] unquote_bits [of q] unquote_item_3F by simp
  finally show ?thesis .
qed


lemma takeWhile_encoded_question:
  "CHR ''?'' \<notin> set p \<Longrightarrow>
   takeWhile (\<lambda>c. c \<noteq> CHR ''?'') (p @ ''%3F'' @ q) = p @ ''%3F'' @ takeWhile (\<lambda>c. c \<noteq> CHR ''?'') q"
  by (induction p) auto

subsection \<open>Routing\<close>

text \<open>
  C2: the path a GET request is routed by is \<^verbatim>\<open>self.path\<close> cut at its first \<^verbatim>\<open>?\<close> and
  then percent-decoded; the path \<^verbatim>\<open>/playlist.json\<close> goes to the playlist code (the
  directory listing, filtered, sent as JSON), the path \<^verbatim>\<open>/\<close> to the page, and every
  other path to \<^verbatim>\<open>SimpleHTTPRequestHandler.do_GET\<close>.
\<close>

theorem dispatch_on_decoded_path:
  "hd (split1 CHR ''?'' (self_path rq)) = takeWhile (\<lambda>c. c \<noteq> CHR ''?'') (self_path rq)
   \<and> (let path = unquote (takeWhile (\<lambda>c. c \<noteq> CHR ''?'') (self_path rq)) in
        (path = ''/playlist.json'' \<longrightarrow>
           do_GET w rq =
             (case os_listdir w ''.'' of
                Inl e \<Rightarrow> Inl e
              | Inr names \<Rightarrow>
                  Inr (Sent (send_json w (filter (\<lambda>f. endswith (lower f) AUDIO_EXT) names)))))
        \<and> (path = ''/'' \<longrightarrow> do_GET w rq = Inr (Sent (send_html w PLAYER_HTML)))
        \<and> (path \<noteq> ''/playlist.json'' \<and> path \<noteq> ''/'' \<longrightarrow>
             do_GET w rq = SimpleHTTPRequestHandler_do_GET w rq))"
  by (auto simp: do_GET_def hd_split1 Let_def split: sum.splits)

theorem dispatch_on_decoded_path_witness:
  "do_GET example_world \<lparr>self_path = ''/%70laylist.json?x=1'', self_headers = []\<rparr>
     = Inr (Sent (send_json example_world [''a.mp3'', ''b.MP3'', ''.Mp3'']))
   \<and> do_GET example_world \<lparr>self_path = ''/?x=1'', self_headers = []\<rparr>
     = Inr (Sent (send_html example_world PLAYER_HTML))
   \<and> do_GET example_world \<lparr>self_path = ''/c.txt'', self_headers = []\<rparr>
     = SimpleHTTPRequestHandler_do_GET example_world
              \<lparr>self_path = ''/c.txt'', self_headers = []\<rparr>"
proof -
  let ?rq1 = "\<lparr>self_path = ''/%70laylist.json?x=1'', self_headers = []\<rparr>"
  let ?rq2 = "\<lparr>self_path = ''/?x=1'', self_headers = []\<rparr>"
  let ?rq3 = "\<lparr>self_path = ''/c.txt'', self_headers = []\<rparr>"
  have p1: "unquote (takeWhile (\<lambda>c. c \<noteq> CHR ''?'') (self_path ?rq1)) = ''/playlist.json''"
    by code_simp
  have p2: "unquote (takeWhile (\<lambda>c. c \<noteq> CHR ''?'') (self_path ?rq2)) = ''/''"
    by code_simp
  have p3: "unquote (takeWhile (\<lambda>c. c \<noteq> CHR ''?'') (self_path ?rq3)) = ''/c.txt''"
    by code_simp
  have l: "(case os_listdir example_world ''.'' of
              Inl e \<Rightarrow> Inl e
            | Inr names \<Rightarrow>
                Inr (Sent (send_json example_world
                  (filter (\<lambda>f. endswith (lower f) AUDIO_EXT) names))))
           = Inr (Sent (send_json example_world [''a.mp3'', ''b.MP3'', ''.Mp3'']))"
    by code_simp
  have "do_GET example_world ?rq1 = Inr (Sent (send_json example_world [''a.mp3'', ''b.MP3'', ''.Mp3'']))"
    using dispatch_on_decoded_path [of ?rq1 example_world, unfolded Let_def p1] l by simp
  moreover have "do_GET example_world ?rq2 = Inr (Sent (send_html example_world PLAYER_HTML))"
    using dispatch_on_decoded_path [of ?rq2 example_world, unfolded Let_def p2] by simp
  moreover have "do_GET example_world ?rq3
      = SimpleHTTPRequestHandler_do_GET example_world ?rq3"
    using dispatch_on_decoded_path [of ?rq3 example_world, unfolded Let_def p3] by simp
  ultimately show ?thesis by blast
qed


text \<open>
  C10: the query string is cut off before the percent-decoding, so only a literal \<^verbatim>\<open>?\<close>
  ends the path: a target without one is decoded whole, an encoded \<^verbatim>\<open>%3F\<close> becomes an
  ordinary \<^verbatim>\<open>?\<close> inside the routed path, and the target \<^verbatim>\<open>/playlist.json%3Fx=1\<close> is
  handed to \<^verbatim>\<open>SimpleHTTPRequestHandler.do_GET\<close>, not to the playlist code.
\<close>

theorem encoded_question_mark_is_path_text:
  assumes "CHR ''?'' \<notin> set p"
  shows "hd (split1 CHR ''?'' p) = p
         \<and> unquote (hd (split1 CHR ''?'' (p @ ''%3F'' @ q)))
             = unquote p @ ''?'' @ unquote (hd (split1 CHR ''?'' q))
         \<and> do_GET w \<lparr>self_path = ''/playlist.json%3Fx=1'', self_headers = hs\<rparr>
             = SimpleHTTPRequestHandler_do_GET w
                      \<lparr>self_path = ''/playlist.json%3Fx=1'', self_headers = hs\<rparr>"
proof -
  have "hd (split1 CHR ''?'' p) = p"
    using assms by (auto simp: hd_split1 takeWhile_eq_all_conv)
  moreover have "unquote (hd (split1 CHR ''?'' (p @ ''%3F'' @ q)))
      = unquote p @ ''?'' @ unquote (hd (split1 CHR ''?'' q))"
    unfolding hd_split1 takeWhile_encoded_question [OF assms]
    by (rule unquote_encoded_question)
  moreover have "unquote (hd (split1 CHR ''?'' ''/playlist.json%3Fx=1'')) = ''/playlist.json?x=1''"
    by code_simp
  then have "do_GET w \<lparr>self_path = ''/playlist.json%3Fx=1'', self_headers = hs\<rparr>
      = SimpleHTTPRequestHandler_do_GET w
               \<lparr>self_path = ''/playlist.json%3Fx=1'', self_headers = hs\<rparr>"
    by (simp add: do_GET_def)
  ultimately show ?thesis by blast
qed

theorem encoded_question_mark_is_path_text_witness:
  "CHR ''?'' \<notin> set ''/playlist.json''
   \<and> hd (split1 CHR ''?'' ''/playlist.json'') = ''/playlist.json''
   \<and> unquote (hd (split1 CHR ''?'' (''/playlist.json'' @ ''%3F'' @ ''x=1?y'')))
       = unquote ''/playlist.json'' @ ''?'' @ unquote (hd (split1 CHR ''?'' ''x=1?y''))
   \<and> do_GET example_world \<lparr>self_path = ''/playlist.json%3Fx=1'', self_headers = []\<rparr>
       = SimpleHTTPRequestHandler_do_GET example_world
                \<lparr>self_path = ''/playlist.json%3Fx=1'', self_headers = []\<rparr>"
proof -
  have 1: "CHR ''?'' \<notin> set ''/playlist.json''"
    by simp
  from encoded_question_mark_is_path_text [OF 1, of "''x=1?y''" example_world "[]"] 1
  show ?thesis by blast
qed


subsection \<open>The playlist and the page\<close>

lemma walk_wf:
  "walk n anc cs = Inr (m, anc') \<Longrightarrow> wf_node n \<Longrightarrow> (\<forall>a \<in> set anc. wf_node a)
   \<Longrightarrow> wf_node m \<and> (\<forall>a \<in> set anc'. wf_node a)"
proof (induction cs arbitrary: n anc)
  case Nil
  then show ?case by simp
next
  case (Cons c cs)
  show ?case
  proof (cases n)
    case (File r t d)
    with Cons.prems(1) show ?thesis by simp
  next
    case (Dir r x es)
    note n = this
    show ?thesis
    proof (cases "c = []")
      case True
      with Cons.prems(1) n have "walk n anc cs = Inr (m, anc')" by simp
      from Cons.IH [OF this Cons.prems(2,3)] show ?thesis .
    next
      case c: False
      with Cons.prems(1) n have x: x by (simp split: if_splits)
      show ?thesis
      proof (cases "c = ''.''")
        case True
        with Cons.prems(1) n x have "walk n anc cs = Inr (m, anc')" by simp
        from Cons.IH [OF this Cons.prems(2,3)] show ?thesis .
      next
        case d: False
        show ?thesis
        proof (cases "c = ''..''")
          case True
          show ?thesis
          proof (cases anc)
            case Nil
            with Cons.prems(1) n x True have "walk n [] cs = Inr (m, anc')" by simp
            from Cons.IH [OF this Cons.prems(2)] show ?thesis by simp
          next
            case (Cons p ps)
            with Cons.prems(1) n x True have "walk p ps cs = Inr (m, anc')" by simp
            moreover from Cons Cons.prems(3) have "wf_node p" "\<forall>a \<in> set ps. wf_node a"
              by simp_all
            ultimately show ?thesis by (rule Cons.IH)
          qed
        next
          case False
          with Cons.prems(1) n c x d obtain k where k: "map_of es c = Some k"
            and w: "walk k (n # anc) cs = Inr (m, anc')"
            by (auto split: option.splits)
          from k have "(c, k) \<in> set es" by (rule map_of_SomeD)
          with Cons.prems(2) n have "wf_node k" by auto
          moreover from Cons.prems(2,3) have "\<forall>a \<in> set (n # anc). wf_node a" by simp
          ultimately show ?thesis using w Cons.IH by blast
        qed
      qed
    qed
  qed
qed

lemma resolve_wf:
  assumes "wf_node (fs w)" and "resolve w path = Inr (m, anc)"
  shows "wf_node m"
proof (cases "isabs path")
  case True
  with assms show ?thesis
    using walk_wf [of "fs w" "[]" "split CHR ''/'' path" m anc]
    by (auto simp: resolve_def split: if_splits)
next
  case False
  with assms obtain n a where 1: "walk (fs w) [] (split CHR ''/'' (cwd w)) = Inr (n, a)"
    and 2: "walk n a (split CHR ''/'' path) = Inr (m, anc)"
    by (auto simp: resolve_def split: if_splits sum.splits)
  from walk_wf [OF 1] assms have "wf_node n \<and> (\<forall>x \<in> set a. wf_node x)" by simp
  with walk_wf [OF 2] show ?thesis by simp
qed

lemma listdir_distinct:
  assumes "wf_node (fs w)" and "os_listdir w path = Inr names"
  shows "distinct names"
proof -
  from assms(2) obtain r x es anc where "resolve w path = Inr (Dir r x es, anc)"
    and n: "names = map fst es"
    by (auto simp: os_listdir_def split: sum.splits node.splits if_splits)
  with resolve_wf [OF assms(1)] have "wf_node (Dir r x es)" by blast
  with n show ?thesis by simp
qed

subsection \<open>The JSON text of the playlist\<close>

lemma code_points_ascii:
  "\<forall>b \<in> set bs. b < 128 \<Longrightarrow> code_points bs = bs"
  by (induction bs) (simp_all add: utf8_head_def)

lemma replace_unescaped: "unescaped c \<Longrightarrow> replace (of_char c) = [c]"
  by (simp add: replace_def unescaped_def Let_def)

lemma encode_basestring_ascii_plain:
  assumes "\<forall>c \<in> set s. unescaped c"
  shows "encode_basestring_ascii s = CHR 0x22 # s @ [CHR 0x22]"
proof -
  from assms have "\<forall>b \<in> set (map of_char s). b < (128::nat)"
    by (auto simp: unescaped_def Let_def)
  then have "code_points (map of_char s) = map of_char s"
    by (rule code_points_ascii)
  moreover from assms have "concat (map replace (map of_char s)) = s"
    by (induction s) (simp_all add: replace_unescaped)
  ultimately show ?thesis
    by (simp add: encode_basestring_ascii_def)
qed

lemma join_sep_contains:
  "x \<in> set xs \<Longrightarrow> \<exists>pre post. join_sep sep xs = pre @ x @ post"
proof (induction sep xs rule: join_sep.induct)
  case (1 sep)
  then show ?case by simp
next
  case (2 sep w)
  then have "join_sep sep [w] = [] @ x @ []" by simp
  then show ?case by blast
next
  case (3 sep w v vs)
  show ?case
  proof (cases "x = w")
    case True
    then have "join_sep sep (w # v # vs) = [] @ x @ (sep @ join_sep sep (v # vs))" by simp
    then show ?thesis by blast
  next
    case False
    with 3 obtain pre post where "join_sep sep (v # vs) = pre @ x @ post" by auto
    then have "join_sep sep (w # v # vs) = (w @ sep @ pre) @ x @ post" by simp
    then show ?thesis by blast
  qed
qed

lemma of_char_lower_char:
  "(of_char (lower_char c) :: nat)
     = (if 65 \<le> (of_char c :: nat) \<and> (of_char c :: nat) \<le> 90 then of_char c + 32 else of_char c)"
  by (simp add: lower_char_def Let_def)

lemma of_char_literals:
  "(of_char CHR ''.'' :: nat) = 46" "(of_char CHR ''m'' :: nat) = 109"
  "(of_char CHR ''p'' :: nat) = 112" "(of_char CHR ''3'' :: nat) = 51"
  by simp_all

lemma lowers_to_dot_mp3_unescaped:
  assumes "lower name = ''.mp3''"
  shows "\<forall>c \<in> set name. unescaped c"
proof
  fix c assume "c \<in> set name"
  then have "lower_char c \<in> set (lower name)" by (simp add: lower_def)
  with assms have "lower_char c \<in> {CHR ''.'', CHR ''m'', CHR ''p'', CHR ''3''}" by simp
  then have "(of_char (lower_char c) :: nat) \<in> {46, 109, 112, 51}"
    using of_char_literals by auto
  then show "unescaped c"
    unfolding of_char_lower_char unescaped_def Let_def by (auto split: if_splits)
qed


lemma suffix_filter:
  "filter (\<lambda>f. endswith (lower f) AUDIO_EXT) names
     = filter (\<lambda>f. \<exists>stem. lower f = stem @ ''.mp3'') names"
  by (simp add: endswith_iff AUDIO_EXT_def)

lemma do_GET_playlist:
  assumes "os_listdir w ''.'' = Inr names"
    and "unquote (hd (split1 CHR ''?'' (self_path rq))) = ''/playlist.json''"
  shows "do_GET w rq
           = Inr (Sent (send_json w (filter (\<lambda>f. \<exists>stem. lower f = stem @ ''.mp3'') names)))"
  using assms by (simp add: do_GET_def suffix_filter)

text \<open>
  C1, as stated, fails: it is not in every state of the served root that the request for
  the playlist is answered with status 200. When the root cannot be listed,
  \<^verbatim>\<open>os.listdir\<close> raises and \<^verbatim>\<open>do_GET\<close> sends nothing.
\<close>

theorem playlist_unlistable_root_counterexample:
  "do_GET unreadable_world \<lparr>self_path = ''/playlist.json'', self_headers = []\<rparr>
     = Inl PermissionError"
  by code_simp


text \<open>
  C1, amended: whenever the listing of the served root succeeds, a GET request routed to
  \<^verbatim>\<open>/playlist.json\<close> is answered with status 200, content type \<^verbatim>\<open>application/json\<close>
  and, as body, the JSON array of the entry names whose lowered form ends with \<^verbatim>\<open>.mp3\<close>:
  exactly those names, each once, in the order of the listing, every name between double
  quotes (as it stands when it has no character that JSON escapes), the names separated
  by a comma and a space, the whole between brackets; a directory without such an entry
  gives the body \<^verbatim>\<open>[]\<close>.
\<close>

theorem playlist_lists_audio_names:
  assumes "wf_node (fs w)"
    and "os_listdir w ''.'' = Inr names"
    and "unquote (hd (split1 CHR ''?'' (self_path rq))) = ''/playlist.json''"
    and "files = filter (\<lambda>f. \<exists>stem. lower f = stem @ ''.mp3'') names"
  shows "\<exists>r. do_GET w rq = Inr (Sent r)
           \<and> status r = 200
           \<and> headers r = [(''Server'', version_string w), (''Date'', date_time_string w None),
                           (''Content-Type'', ''application/json'')]
           \<and> body r = (if files = [] then ''[]''
                        else ''['' @ join_sep '', '' (map encode_basestring_ascii files) @ '']'')
           \<and> (\<forall>f \<in> set files. (\<forall>c \<in> set f. unescaped c)
                  \<longrightarrow> encode_basestring_ascii f = CHR 0x22 # f @ [CHR 0x22])
           \<and> set files = {f \<in> set names. \<exists>stem. lower f = stem @ ''.mp3''}
           \<and> distinct files"
proof -
  have "do_GET w rq = Inr (Sent (send_json w files))"
    using do_GET_playlist [OF assms(2,3)] assms(4) by simp
  moreover have "body (send_json w files)
      = (if files = [] then ''[]''
         else ''['' @ join_sep '', '' (map encode_basestring_ascii files) @ '']'')"
    by (simp add: send_json_fields json_dumps_def)
  moreover have "set files = {f \<in> set names. \<exists>stem. lower f = stem @ ''.mp3''}"
    using assms(4) by auto
  moreover have "distinct files"
    using listdir_distinct [OF assms(1,2)] assms(4) by simp
  moreover have "\<forall>f \<in> set files. (\<forall>c \<in> set f. unescaped c)
      \<longrightarrow> encode_basestring_ascii f = CHR 0x22 # f @ [CHR 0x22]"
    by (simp add: encode_basestring_ascii_plain)
  ultimately show ?thesis
    by (intro exI [of _ "send_json w files"]) (simp add: send_json_fields)
qed

theorem playlist_lists_audio_names_witness:
  "(wf_node (fs example_world)
    \<and> os_listdir example_world ''.'' = Inr [''a.mp3'', ''b.MP3'', ''c.txt'', ''.Mp3'', ''secret.txt'']
    \<and> unquote (hd (split1 CHR ''?'' (self_path \<lparr>self_path = ''/playlist.json'', self_headers = []\<rparr>)))
        = ''/playlist.json''
    \<and> [''a.mp3'', ''b.MP3'', ''.Mp3'']
        = filter (\<lambda>f. \<exists>stem. lower f = stem @ ''.mp3'')
            [''a.mp3'', ''b.MP3'', ''c.txt'', ''.Mp3'', ''secret.txt'']
    \<and> list_all (list_all unescaped) [''a.mp3'', ''b.MP3'', ''.Mp3'']
    \<and> (\<exists>r. do_GET example_world \<lparr>self_path = ''/playlist.json'', self_headers = []\<rparr>
             = Inr (Sent r)
           \<and> status r = 200
           \<and> headers r = [(''Server'', ''SimpleHTTP/0.6 Python/3.11.10''), (''Date'', ''100''),
                           (''Content-Type'', ''application/json'')]
           \<and> body r = ''['' @ [CHR 0x22] @ ''a.mp3'' @ [CHR 0x22] @ '', ''
                         @ [CHR 0x22] @ ''b.MP3'' @ [CHR 0x22] @ '', ''
                         @ [CHR 0x22] @ ''.Mp3'' @ [CHR 0x22] @ '']''))
   \<and> (wf_node (fs empty_world)
      \<and> os_listdir empty_world ''.'' = Inr []
      \<and> [] = filter (\<lambda>f. \<exists>stem. lower f = stem @ ''.mp3'') []
      \<and> (\<exists>r. do_GET empty_world \<lparr>self_path = ''/playlist.json'', self_headers = []\<rparr>
               = Inr (Sent r)
             \<and> status r = 200 \<and> body r = ''[]''))"
proof -
  let ?rq = "\<lparr>self_path = ''/playlist.json'', self_headers = []\<rparr>"
  let ?names = "[''a.mp3'', ''b.MP3'', ''c.txt'', ''.Mp3'', ''secret.txt'']"
  let ?files = "[''a.mp3'', ''b.MP3'', ''.Mp3'']"
  have 1: "wf_node (fs example_world)"
    by code_simp
  have 2: "os_listdir example_world ''.'' = Inr ?names"
    by code_simp
  have 3: "unquote (hd (split1 CHR ''?'' (self_path ?rq))) = ''/playlist.json''"
    by code_simp
  have "?files = filter (\<lambda>f. endswith (lower f) AUDIO_EXT) ?names"
    by code_simp
  then have 4: "?files = filter (\<lambda>f. \<exists>stem. lower f = stem @ ''.mp3'') ?names"
    by (simp only: suffix_filter)
  have 5: "list_all (list_all unescaped) ?files"
    by code_simp
  have v: "version_string example_world = ''SimpleHTTP/0.6 Python/3.11.10''"
    by code_simp
  have d: "date_time_string example_world None = ''100''"
    by code_simp
  have b: "(if ?files = [] then ''[]''
            else ''['' @ join_sep '', '' (map encode_basestring_ascii ?files) @ '']'')
           = ''['' @ [CHR 0x22] @ ''a.mp3'' @ [CHR 0x22] @ '', ''
               @ [CHR 0x22] @ ''b.MP3'' @ [CHR 0x22] @ '', ''
               @ [CHR 0x22] @ ''.Mp3'' @ [CHR 0x22] @ '']''"
    by code_simp
  from playlist_lists_audio_names [OF 1 2 3 4] obtain r
    where "do_GET example_world ?rq = Inr (Sent r)" and "status r = 200"
      and "headers r = [(''Server'', version_string example_world),
                        (''Date'', date_time_string example_world None),
                        (''Content-Type'', ''application/json'')]"
      and "body r = (if ?files = [] then ''[]''
                     else ''['' @ join_sep '', '' (map encode_basestring_ascii ?files) @ '']'')"
    by blast
  then have A: "\<exists>r. do_GET example_world ?rq = Inr (Sent r)
           \<and> status r = 200
           \<and> headers r = [(''Server'', ''SimpleHTTP/0.6 Python/3.11.10''), (''Date'', ''100''),
                           (''Content-Type'', ''application/json'')]
           \<and> body r = ''['' @ [CHR 0x22] @ ''a.mp3'' @ [CHR 0x22] @ '', ''
                         @ [CHR 0x22] @ ''b.MP3'' @ [CHR 0x22] @ '', ''
                         @ [CHR 0x22] @ ''.Mp3'' @ [CHR 0x22] @ '']''"
    unfolding v d b by blast
  have 6: "wf_node (fs empty_world)"
    by code_simp
  have 7: "os_listdir empty_world ''.'' = Inr []"
    by code_simp
  have 8: "[] = filter (\<lambda>f. \<exists>stem. lower f = stem @ ''.mp3'') []"
    by simp
  from playlist_lists_audio_names [OF 6 7 3 8] obtain r'
    where "do_GET empty_world ?rq = Inr (Sent r')" and "status r' = 200"
      and "body r' = (if [] = ([] :: string list) then ''[]''
                      else ''['' @ join_sep '', '' (map encode_basestring_ascii []) @ '']'')"
    by blast
  then have B: "\<exists>r. do_GET empty_world ?rq = Inr (Sent r) \<and> status r = 200 \<and> body r = ''[]''"
    by simp
  note 1 2 3 4 5 A 6 7 8 B
  then show ?thesis
    by - (intro conjI, assumption+)
qed

text \<open>
  C9: the filter of the playlist is a suffix test on the lowered name and nothing else:
  the list sent is the listing filtered by it, so an entry whose whole name is
  \<^verbatim>\<open>.mp3\<close>, in any letter case, is in that list, and the body of the response holds the
  name between double quotes.
\<close>

theorem dot_mp3_entry_is_listed:
  assumes "os_listdir w ''.'' = Inr names"
    and "name \<in> set names"
    and "lower name = ''.mp3''"
    and "unquote (hd (split1 CHR ''?'' (self_path rq))) = ''/playlist.json''"
  shows "\<exists>r pre post. do_GET w rq = Inr (Sent r)
           \<and> body r = ''['' @ join_sep '', '' (map encode_basestring_ascii
                 (filter (\<lambda>f. \<exists>stem. lower f = stem @ ''.mp3'') names)) @ '']''
           \<and> name \<in> set (filter (\<lambda>f. \<exists>stem. lower f = stem @ ''.mp3'') names)
           \<and> body r = pre @ CHR 0x22 # name @ CHR 0x22 # post"
proof -
  let ?files = "filter (\<lambda>f. \<exists>stem. lower f = stem @ ''.mp3'') names"
  have get: "do_GET w rq = Inr (Sent (send_json w ?files))"
    using assms(1,4) by (rule do_GET_playlist)
  have "lower name = [] @ ''.mp3''"
    using assms(3) by simp
  then have "\<exists>stem. lower name = stem @ ''.mp3''" ..
  with assms(2) have mem: "name \<in> set ?files" by simp
  then have ne: "?files \<noteq> []"
    by (metis empty_iff empty_set)
  then have body: "body (send_json w ?files)
      = ''['' @ join_sep '', '' (map encode_basestring_ascii ?files) @ '']''"
    by (simp add: send_json_fields json_dumps_def)
  have "encode_basestring_ascii name \<in> set (map encode_basestring_ascii ?files)"
    using mem by (simp only: set_map) (rule imageI)
  then obtain pre post where "join_sep '', '' (map encode_basestring_ascii ?files)
      = pre @ encode_basestring_ascii name @ post"
    using join_sep_contains by blast
  moreover have "encode_basestring_ascii name = CHR 0x22 # name @ [CHR 0x22]"
    using lowers_to_dot_mp3_unescaped [OF assms(3)] by (rule encode_basestring_ascii_plain)
  ultimately have "body (send_json w ?files)
      = (''['' @ pre) @ CHR 0x22 # name @ CHR 0x22 # (post @ '']'')"
    using body by simp
  with get body mem show ?thesis by blast
qed

theorem dot_mp3_entry_is_listed_witness:
  "os_listdir example_world ''.'' = Inr [''a.mp3'', ''b.MP3'', ''c.txt'', ''.Mp3'', ''secret.txt'']
   \<and> ''.Mp3'' \<in> set [''a.mp3'', ''b.MP3'', ''c.txt'', ''.Mp3'', ''secret.txt'']
   \<and> lower ''.Mp3'' = ''.mp3''
   \<and> unquote (hd (split1 CHR ''?'' (self_path \<lparr>self_path = ''/playlist.json'', self_headers = []\<rparr>)))
       = ''/playlist.json''
   \<and> (\<exists>r pre post. do_GET example_world \<lparr>self_path = ''/playlist.json'', self_headers = []\<rparr>
            = Inr (Sent r)
          \<and> body r = ''['' @ [CHR 0x22] @ ''a.mp3'' @ [CHR 0x22] @ '', ''
                        @ [CHR 0x22] @ ''b.MP3'' @ [CHR 0x22] @ '', ''
                        @ [CHR 0x22] @ ''.Mp3'' @ [CHR 0x22] @ '']''
          \<and> ''.Mp3'' \<in> set (filter (\<lambda>f. \<exists>stem. lower f = stem @ ''.mp3'')
                               [''a.mp3'', ''b.MP3'', ''c.txt'', ''.Mp3'', ''secret.txt''])
          \<and> body r = pre @ CHR 0x22 # ''.Mp3'' @ CHR 0x22 # post)"
proof -
  let ?rq = "\<lparr>self_path = ''/playlist.json'', self_headers = []\<rparr>"
  let ?names = "[''a.mp3'', ''b.MP3'', ''c.txt'', ''.Mp3'', ''secret.txt'']"
  have 1: "os_listdir example_world ''.'' = Inr ?names"
    by code_simp
  have 2: "''.Mp3'' \<in> set ?names"
    by simp
  have 3: "lower ''.Mp3'' = ''.mp3''"
    by code_simp
  have 4: "unquote (hd (split1 CHR ''?'' (self_path ?rq))) = ''/playlist.json''"
    by code_simp
  have "''['' @ join_sep '', '' (map encode_basestring_ascii
            (filter (\<lambda>f. endswith (lower f) AUDIO_EXT) ?names)) @ '']''
        = ''['' @ [CHR 0x22] @ ''a.mp3'' @ [CHR 0x22] @ '', ''
            @ [CHR 0x22] @ ''b.MP3'' @ [CHR 0x22] @ '', ''
            @ [CHR 0x22] @ ''.Mp3'' @ [CHR 0x22] @ '']''"
    by code_simp
  then have b: "''['' @ join_sep '', '' (map encode_basestring_ascii
            (filter (\<lambda>f. \<exists>stem. lower f = stem @ ''.mp3'') ?names)) @ '']''
        = ''['' @ [CHR 0x22] @ ''a.mp3'' @ [CHR 0x22] @ '', ''
            @ [CHR 0x22] @ ''b.MP3'' @ [CHR 0x22] @ '', ''
            @ [CHR 0x22] @ ''.Mp3'' @ [CHR 0x22] @ '']''"
    by (simp only: suffix_filter)
  note 1 2 3 4 dot_mp3_entry_is_listed [OF 1 2 3 4, unfolded b]
  then show ?thesis
    by - (intro conjI, assumption+)
qed


text \<open>
  C8: every GET request routed to \<^verbatim>\<open>/\<close> is answered with status 200 and content type
  \<^verbatim>\<open>text/html; charset=utf-8\<close>, and the bodies of any two such answers, whatever the
  state of the world and the rest of the request, are the same bytes: those of
  \<^verbatim>\<open>PLAYER_HTML\<close>.
\<close>

theorem page_is_constant:
  assumes "unquote (hd (split1 CHR ''?'' (self_path rq1))) = ''/''"
    and "unquote (hd (split1 CHR ''?'' (self_path rq2))) = ''/''"
  shows "\<exists>r1 r2. do_GET w1 rq1 = Inr (Sent r1) \<and> do_GET w2 rq2 = Inr (Sent r2)
           \<and> status r1 = 200 \<and> status r2 = 200
           \<and> map_of (headers r1) ''Content-Type'' = Some ''text/html; charset=utf-8''
           \<and> map_of (headers r2) ''Content-Type'' = Some ''text/html; charset=utf-8''
           \<and> body r1 = encode PLAYER_HTML \<and> body r2 = body r1"
proof -
  have "do_GET w1 rq1 = Inr (Sent (send_html w1 PLAYER_HTML))"
    and "do_GET w2 rq2 = Inr (Sent (send_html w2 PLAYER_HTML))"
    using assms by (simp_all add: do_GET_def)
  then show ?thesis
    by (simp add: send_html_fields encode_def)
qed

theorem page_is_constant_witness:
  "unquote (hd (split1 CHR ''?'' (self_path \<lparr>self_path = ''/'', self_headers = []\<rparr>))) = ''/''
   \<and> unquote (hd (split1 CHR ''?''
        (self_path \<lparr>self_path = ''/?t=1'', self_headers = [(''Accept'', ''*/*'')]\<rparr>))) = ''/''
   \<and> (\<exists>r1 r2. do_GET example_world \<lparr>self_path = ''/'', self_headers = []\<rparr> = Inr (Sent r1)
         \<and> do_GET (example_world\<lparr>clock := 200\<rparr>)
              \<lparr>self_path = ''/?t=1'', self_headers = [(''Accept'', ''*/*'')]\<rparr> = Inr (Sent r2)
         \<and> status r1 = 200 \<and> status r2 = 200
         \<and> map_of (headers r1) ''Content-Type'' = Some ''text/html; charset=utf-8''
         \<and> map_of (headers r2) ''Content-Type'' = Some ''text/html; charset=utf-8''
         \<and> body r1 = encode PLAYER_HTML \<and> body r2 = body r1)"
proof -
  have 1: "unquote (hd (split1 CHR ''?'' (self_path \<lparr>self_path = ''/'', self_headers = []\<rparr>)))
           = ''/''"
    by code_simp
  have 2: "unquote (hd (split1 CHR ''?''
             (self_path \<lparr>self_path = ''/?t=1'', self_headers = [(''Accept'', ''*/*'')]\<rparr>))) = ''/''"
    by code_simp
  from page_is_constant [OF 1 2, of example_world "example_world\<lparr>clock := 200\<rparr>"] 1 2
  show ?thesis by blast
qed


subsection \<open>Start-up and the serving loop\<close>

lemma nonexistent_not_isdir: "resolve w path = Inl e \<Longrightarrow> \<not> os_path_isdir w path"
  by (simp add: os_path_isdir_def)




lemma serve_forever_append:
  "serve_forever (xs @ ys) = serve_forever xs @ serve_forever ys"
  by (induction xs) auto


text \<open>
  C6, as stated, fails: with the served root unreadable, the request for the playlist is
  not answered with a server error; the exception of \<^verbatim>\<open>os.listdir\<close> leaves \<^verbatim>\<open>do_GET\<close>
  before anything is sent, and the serving loop drops the connection.
\<close>

theorem unreadable_root_counterexample:
  "os_listdir unreadable_world ''.'' = Inl PermissionError
   \<and> handle_request_noblock unreadable_world \<lparr>self_path = ''/playlist.json'', self_headers = []\<rparr>
       = Dropped PermissionError"
  by code_simp


text \<open>
  C6, amended: when the listing of the served root fails at request time, the request for
  the playlist gets no response (the exception reaches the serving loop, which reports it
  and closes the connection); the loop goes on, and the requests before and after are
  served as they are without it.
\<close>

theorem listing_failure_drops_the_request:
  assumes "os_listdir w ''.'' = Inl e"
    and "unquote (hd (split1 CHR ''?'' (self_path rq))) = ''/playlist.json''"
  shows "do_GET w rq = Inl e
         \<and> handle_request_noblock w rq = Dropped e
         \<and> serve_forever (before @ (w, rq) # after)
             = serve_forever before @ Dropped e # serve_forever after"
proof -
  have "do_GET w rq = Inl e"
    using assms by (simp add: do_GET_def)
  then show ?thesis
    by (simp add: handle_request_noblock_def serve_forever_append)
qed

theorem listing_failure_drops_the_request_witness:
  "os_listdir unreadable_world ''.'' = Inl PermissionError
   \<and> unquote (hd (split1 CHR ''?'' (self_path \<lparr>self_path = ''/playlist.json'', self_headers = []\<rparr>)))
       = ''/playlist.json''
   \<and> do_GET unreadable_world \<lparr>self_path = ''/playlist.json'', self_headers = []\<rparr>
       = Inl PermissionError
   \<and> handle_request_noblock unreadable_world \<lparr>self_path = ''/playlist.json'', self_headers = []\<rparr>
       = Dropped PermissionError
   \<and> serve_forever
         ([(example_world, \<lparr>self_path = ''/'', self_headers = []\<rparr>)]
          @ (unreadable_world, \<lparr>self_path = ''/playlist.json'', self_headers = []\<rparr>)
          # [(unreadable_world, \<lparr>self_path = ''/a.mp3'', self_headers = []\<rparr>)])
       = serve_forever [(example_world, \<lparr>self_path = ''/'', self_headers = []\<rparr>)]
         @ Dropped PermissionError
         # serve_forever [(unreadable_world, \<lparr>self_path = ''/a.mp3'', self_headers = []\<rparr>)]"
proof -
  have 1: "os_listdir unreadable_world ''.'' = Inl PermissionError"
    by code_simp
  have 2: "unquote (hd (split1 CHR ''?''
             (self_path \<lparr>self_path = ''/playlist.json'', self_headers = []\<rparr>)))
           = ''/playlist.json''"
    by code_simp
  note 1 2 listing_failure_drops_the_request [OF 1 2,
      of "[(example_world, \<lparr>self_path = ''/'', self_headers = []\<rparr>)]"
         "[(unreadable_world, \<lparr>self_path = ''/a.mp3'', self_headers = []\<rparr>)]"]
  then show ?thesis
    by - ((elim conjE)?, intro conjI, assumption+)
qed


end
